theory Spec2Isabelle
  imports Main "HOL-Library.Multiset" "HOL-Library.AList" "HOL-Library.Char_ord" "HOL-Library.List_Lexorder"
begin

section \<open>Errors\<close>

text \<open>
  Go error values. \<open>ErrKeyNotFound\<close> is the package's sentinel
  (\<^verbatim>\<open>errors.New("db: not found")\<close>). \<open>Wrapped p e\<close> is the value built by
  \<^verbatim>\<open>fmt.Errorf(p + "%w", e)\<close>: it keeps \<open>e\<close> reachable through \<^verbatim>\<open>Unwrap\<close>.
  The remaining constructors are the errors of the collaborators: the JSON library
  (\<open>SyntaxError\<close>, \<open>UnmarshalTypeError\<close>, and \<open>MarshalerError e\<close>, which unwraps to
  \<open>e\<close>) and \<open>ErrorString m\<close>, any other error made by \<^verbatim>\<open>errors.New(m)\<close>, such
  as the failure of a reader, a writer or the storage engine.
\<close>

datatype error =
    ErrKeyNotFound
  | SyntaxError
  | UnmarshalTypeError
  | MarshalerError error
  | ErrorString string
  | Wrapped string error

text \<open>\<^verbatim>\<open>errors.Unwrap\<close>: one step down the chain.\<close>

fun Unwrap :: "error \<Rightarrow> error option" where
  "Unwrap (Wrapped p e) = Some e"
| "Unwrap (MarshalerError e) = Some e"
| "Unwrap _ = None"

text \<open>\<^verbatim>\<open>errors.Is\<close> on a non-nil error: walk the chain, comparing with the target.\<close>

fun is_chain :: "error \<Rightarrow> error \<Rightarrow> bool" where
  "is_chain (Wrapped p e) t = (Wrapped p e = t \<or> is_chain e t)"
| "is_chain (MarshalerError e) t = (MarshalerError e = t \<or> is_chain e t)"
| "is_chain e t = (e = t)"

text \<open>\<^verbatim>\<open>errors.Is(err, target)\<close> with a non-nil target; a nil \<open>err\<close> matches nothing.\<close>

definition errors_Is :: "error option \<Rightarrow> error \<Rightarrow> bool" where
  "errors_Is err t = (case err of None \<Rightarrow> False | Some e \<Rightarrow> is_chain e t)"

section \<open>The transaction interface and the typed codec layer\<close>

type_synonym bytes = string

text \<open>
  \<^verbatim>\<open>type Tx interface { Get(key) ([]byte, error); Set(key, val) error }\<close>.
  An implementation is a method table over its own state \<open>'tx\<close>; \<open>Set\<close> returns the
  state after the call.
\<close>

record 'tx Tx =
  Get :: "'tx \<Rightarrow> bytes \<Rightarrow> error + bytes"
  Set :: "'tx \<Rightarrow> bytes \<Rightarrow> bytes \<Rightarrow> error option \<times> 'tx"

text \<open>
  \<^verbatim>\<open>GetJson[T]\<close>. The type parameter's decoder \<^verbatim>\<open>json.Unmarshal(data, &result)\<close>
  is the argument \<open>unmarshal\<close>. On failure Go returns the zero value of \<open>T\<close> next to
  the error; the model returns the error alone.
\<close>

definition GetJson :: "(bytes \<Rightarrow> error + 'a) \<Rightarrow> 'tx Tx \<Rightarrow> 'tx \<Rightarrow> string \<Rightarrow> error + 'a" where
  "GetJson unmarshal T tx key =
     (case Get T tx key of
        Inl err \<Rightarrow> Inl (Wrapped ''get key: '' err)
      | Inr data \<Rightarrow>
          (case unmarshal data of
             Inl err \<Rightarrow> Inl (Wrapped ''unmarshall key val: '' err)
           | Inr result \<Rightarrow> Inr result))"

text \<open>The error component of a result, as Go's second return value (\<open>None\<close> is nil).\<close>

definition err_of :: "error + 'a \<Rightarrow> error option" where
  "err_of r = (case r of Inl e \<Rightarrow> Some e | Inr _ \<Rightarrow> None)"

definition GetJsonDefault ::
  "(bytes \<Rightarrow> error + 'a) \<Rightarrow> 'tx Tx \<Rightarrow> 'tx \<Rightarrow> string \<Rightarrow> 'a \<Rightarrow> error + 'a" where
  "GetJsonDefault unmarshal T tx key defaultVal =
     (let r = GetJson unmarshal T tx key in
      if errors_Is (err_of r) ErrKeyNotFound then Inr defaultVal else r)"

text \<open>\<^verbatim>\<open>SetJson[T]\<close>, with the encoder \<^verbatim>\<open>json.Marshal(val)\<close> as \<open>marshal\<close>.\<close>

definition SetJson ::
  "('a \<Rightarrow> error + bytes) \<Rightarrow> 'tx Tx \<Rightarrow> 'tx \<Rightarrow> string \<Rightarrow> 'a \<Rightarrow> error option \<times> 'tx" where
  "SetJson marshal T tx key val =
     (case marshal val of
        Inl err \<Rightarrow> (Some (Wrapped ''marshall key val: '' err), tx)
      | Inr data \<Rightarrow>
          (case Set T tx key data of
             (Some err, tx') \<Rightarrow> (Some (Wrapped ''set key: '' err), tx')
           | (None, tx') \<Rightarrow> (None, tx')))"

section \<open>The database interface\<close>

text \<open>
  \<^verbatim>\<open>type KV struct { Key []byte; Val []byte }\<close>. A Go byte slice may be nil, and
  \<^verbatim>\<open>json.RawMessage\<close> encodes a nil slice differently from an empty one, so \<open>Val\<close>
  keeps the distinction: \<open>None\<close> is the nil slice.
\<close>

record KV =
  Key :: bytes
  Val :: "bytes option"


text \<open>
  \<^verbatim>\<open>type DB interface { Start; Stop; Do(ctx, func(Tx) error) error; Dump(ctx) ([]KV, error) }\<close>.
  An implementation works on its own state \<open>'db\<close> and hands closures a transaction of
  type \<open>'tx\<close>, whose methods are \<open>TxOps\<close>. A closure \<^verbatim>\<open>func(Tx) error\<close> is a function
  from the transaction it receives to its error and the transaction after its calls.
  The lifecycle methods and the context take no part in what follows.
\<close>

record ('db, 'tx) DB =
  Do :: "'db \<Rightarrow> ('tx \<Rightarrow> error option \<times> 'tx) \<Rightarrow> error option \<times> 'db"
  Dump :: "'db \<Rightarrow> error + KV list"
  TxOps :: "'tx Tx"

subsection \<open>A sequential store\<close>

text \<open>
  Modelled from the spec: the engine-backed implementation of \<open>DB\<close> and \<open>Tx\<close>
  (the repository's Badger adapter and facade) is not among the sources; only the
  two interfaces and the tests are. The model follows the spec's contract: a transaction
  works on a consistent view of the keyspace (\<open>snapshot\<close>) and buffers its writes, in
  order (\<open>writes\<close>); \<open>Get\<close> sees the transaction's own latest write first, then the
  view, and signals a missing key with the sentinel; \<open>Do\<close> runs the closure once,
  commits all buffered writes when the closure returns nil and none of them otherwise;
  \<open>Dump\<close> returns every entry. Transactions run one at a time here, so the adapter's
  retry on conflict never fires.
\<close>

type_synonym store = "(bytes \<times> bytes) list"

record txn =
  snapshot :: store
  writes :: "(bytes \<times> bytes) list"

definition mem_Get :: "txn \<Rightarrow> bytes \<Rightarrow> error + bytes" where
  "mem_Get tx k =
     (case map_of (rev (writes tx)) k of
        Some v \<Rightarrow> Inr v
      | None \<Rightarrow> (case map_of (snapshot tx) k of Some v \<Rightarrow> Inr v | None \<Rightarrow> Inl ErrKeyNotFound))"

definition mem_Set :: "txn \<Rightarrow> bytes \<Rightarrow> bytes \<Rightarrow> error option \<times> txn" where
  "mem_Set tx k v = (None, tx\<lparr>writes := writes tx @ [(k, v)]\<rparr>)"

definition mem_Tx :: "txn Tx" where
  "mem_Tx = \<lparr>Get = mem_Get, Set = mem_Set\<rparr>"

definition begin_tx :: "store \<Rightarrow> txn" where
  "begin_tx s = \<lparr>snapshot = s, writes = []\<rparr>"

definition commit :: "store \<Rightarrow> (bytes \<times> bytes) list \<Rightarrow> store" where
  "commit s ws = fold (\<lambda>(k, v) st. AList.update k v st) ws s"

definition mem_Do :: "store \<Rightarrow> (txn \<Rightarrow> error option \<times> txn) \<Rightarrow> error option \<times> store" where
  "mem_Do s work =
     (case work (begin_tx s) of
        (None, tx') \<Rightarrow> (None, commit s (writes tx'))
      | (Some err, tx') \<Rightarrow> (Some err, s))"

definition mem_Dump :: "store \<Rightarrow> error + KV list" where
  "mem_Dump s = Inr (map (\<lambda>(k, v). \<lparr>Key = k, Val = Some v\<rparr>) s)"

definition mem_DB :: "(store, txn) DB" where
  "mem_DB = \<lparr>Do = mem_Do, Dump = mem_Dump, TxOps = mem_Tx\<rparr>"

text \<open>
  The store reached from the empty one by a history of committed transactions, each
  given by the writes it committed.
\<close>

definition store_of :: "(bytes \<times> bytes) list list \<Rightarrow> store" where
  "store_of h = fold (\<lambda>ws s. commit s ws) h []"

section \<open>The JSON library, as far as the package uses it\<close>

text \<open>
  \<^verbatim>\<open>encoding/json\<close> is a collaborator of the package, not part of it. This section
  models the functions the package calls, at the level of bytes: the scanner that decides
  which byte sequences are JSON texts, the compaction \<^verbatim>\<open>json.Marshal\<close> applies to a
  \<^verbatim>\<open>json.RawMessage\<close>, the string encoder and decoder, and the two instances of
  \<^verbatim>\<open>Marshal\<close> and \<^verbatim>\<open>Unmarshal\<close> at \<^verbatim>\<open>map[string]json.RawMessage\<close>.
\<close>

subsection \<open>Scanning and compacting a JSON text\<close>

text \<open>
  The scanner accepts the JSON grammar with insignificant white space (space, tab,
  carriage return, line feed) around tokens, and nesting of arrays and objects up to
  \<open>maxNestingDepth\<close>. The functions below read one token or one value from the front
  of the input and return what \<^verbatim>\<open>appendCompact\<close> (with HTML escaping, as \<^verbatim>\<open>Marshal\<close>
  calls it) emits for it, together with the rest of the input: white space between tokens
  is dropped, and inside strings the bytes \<open><\<close>, \<open>>\<close>, \<open>&\<close> and the encodings of
  U+2028 and U+2029 are replaced by \<^verbatim>\<open>\u\<close> escapes. \<open>None\<close> is a syntax error.
  The first argument of \<open>scan_value\<close> bounds the recursion (see \<open>fuel\<close>), the second is
  the number of arrays and objects currently open.
\<close>


definition isSpace :: "char \<Rightarrow> bool" where
  "isSpace c = (c = CHR '' '' \<or> c = CHR 0x09 \<or> c = CHR 0x0D \<or> c = CHR 0x0A)"

definition isDigit :: "char \<Rightarrow> bool" where
  "isDigit c = (CHR ''0'' \<le> c \<and> c \<le> CHR ''9'')"

definition isHex :: "char \<Rightarrow> bool" where
  "isHex c = (isDigit c \<or> (CHR ''a'' \<le> c \<and> c \<le> CHR ''f'') \<or> (CHR ''A'' \<le> c \<and> c \<le> CHR ''F''))"

abbreviation skip_ws :: "bytes \<Rightarrow> bytes" where
  "skip_ws \<equiv> dropWhile isSpace"

definition emit :: "bytes \<Rightarrow> (bytes \<times> bytes) option \<Rightarrow> (bytes \<times> bytes) option" where
  "emit p r = (case r of None \<Rightarrow> None | Some (out, rest) \<Rightarrow> Some (p @ out, rest))"

definition hex :: bytes where
  "hex = ''0123456789abcdef''"

definition html_escape :: "char \<Rightarrow> bytes" where
  "html_escape c = [CHR 0x5C, CHR ''u'', CHR ''0'', CHR ''0'',
                    hex ! (of_char c div 16), hex ! (of_char c mod 16)]"

definition line_sep_escape :: "char \<Rightarrow> bytes" where
  "line_sep_escape c2 = [CHR 0x5C, CHR ''u'', CHR ''2'', CHR ''0'', CHR ''2'', hex ! (of_char c2 mod 16)]"

fun scan_string :: "bytes \<Rightarrow> (bytes \<times> bytes) option" where
  "scan_string [] = None"
| "scan_string (c # cs) =
    (if c = CHR 0x22 then Some ([c], cs)
     else if c = CHR 0x5C then
       (case cs of
          [] \<Rightarrow> None
        | e # cs1 \<Rightarrow>
            if e \<in> set [CHR 0x22, CHR 0x5C, CHR ''/'', CHR ''b'', CHR ''f'', CHR ''n'', CHR ''r'', CHR ''t'']
            then emit [c, e] (scan_string cs1)
            else if e = CHR ''u'' then
              (case cs1 of
                 h1 # h2 # h3 # h4 # cs2 \<Rightarrow>
                   if isHex h1 \<and> isHex h2 \<and> isHex h3 \<and> isHex h4
                   then emit [c, e, h1, h2, h3, h4] (scan_string cs2) else None
               | _ \<Rightarrow> None)
            else None)
     else if c < CHR 0x20 then None
     else if c = CHR ''<'' \<or> c = CHR ''>'' \<or> c = CHR ''&'' then emit (html_escape c) (scan_string cs)
     else if c = CHR 0xE2 then
       (case cs of
          c1 # c2 # cs2 \<Rightarrow>
            if c1 = CHR 0x80 \<and> (c2 = CHR 0xA8 \<or> c2 = CHR 0xA9)
            then emit (line_sep_escape c2) (scan_string cs2)
            else emit [c] (scan_string cs)
        | _ \<Rightarrow> emit [c] (scan_string cs))
     else emit [c] (scan_string cs))"

text \<open>
  A number: an optional minus sign, the integer part (a single zero, or a digit from one
  to nine followed by digits), an optional fraction and an optional exponent.
\<close>

definition scan_exp :: "bytes \<Rightarrow> (bytes \<times> bytes) option" where
  "scan_exp s =
     (case s of
        [] \<Rightarrow> Some ([], [])
      | c # t \<Rightarrow>
          if c = CHR ''e'' \<or> c = CHR ''E'' then
            (case t of
               [] \<Rightarrow> None
             | d # u \<Rightarrow>
                 if d = CHR ''+'' \<or> d = CHR ''-'' then
                   (case u of
                      [] \<Rightarrow> None
                    | x # v \<Rightarrow>
                        if isDigit x then Some (c # d # x # takeWhile isDigit v, dropWhile isDigit v)
                        else None)
                 else if isDigit d then Some (c # d # takeWhile isDigit u, dropWhile isDigit u)
                 else None)
          else Some ([], s))"

definition scan_frac :: "bytes \<Rightarrow> (bytes \<times> bytes) option" where
  "scan_frac s =
     (case s of
        [] \<Rightarrow> Some ([], [])
      | c # t \<Rightarrow>
          if c = CHR ''.'' then
            (case t of
               [] \<Rightarrow> None
             | d # u \<Rightarrow>
                 if isDigit d then emit (c # d # takeWhile isDigit u) (scan_exp (dropWhile isDigit u))
                 else None)
          else scan_exp s)"

definition scan_int :: "bytes \<Rightarrow> (bytes \<times> bytes) option" where
  "scan_int s =
     (case s of
        [] \<Rightarrow> None
      | d # t \<Rightarrow>
          if d = CHR ''0'' then emit [d] (scan_frac t)
          else if isDigit d then emit (d # takeWhile isDigit t) (scan_frac (dropWhile isDigit t))
          else None)"

definition scan_number :: "bytes \<Rightarrow> (bytes \<times> bytes) option" where
  "scan_number s =
     (case s of
        [] \<Rightarrow> None
      | c # t \<Rightarrow> if c = CHR ''-'' then emit [c] (scan_int t) else scan_int s)"

definition scan_lit :: "bytes \<Rightarrow> bytes \<Rightarrow> (bytes \<times> bytes) option" where
  "scan_lit w s = (if take (length w) s = w then Some (w, drop (length w) s) else None)"

definition maxNestingDepth :: nat where
  "maxNestingDepth = 10000"

fun scan_value :: "nat \<Rightarrow> nat \<Rightarrow> bytes \<Rightarrow> (bytes \<times> bytes) option"
  and scan_elems :: "nat \<Rightarrow> nat \<Rightarrow> bytes \<Rightarrow> (bytes \<times> bytes) option"
  and scan_members :: "nat \<Rightarrow> nat \<Rightarrow> bytes \<Rightarrow> (bytes \<times> bytes) option" where
  "scan_value 0 d s = None"
| "scan_value (Suc f) d s =
    (case s of
       [] \<Rightarrow> None
     | c # cs \<Rightarrow>
         if c = CHR ''{'' then
           (if maxNestingDepth \<le> d then None
            else (case skip_ws cs of
                    [] \<Rightarrow> None
                  | c1 # r \<Rightarrow> if c1 = CHR ''}'' then Some ([c, c1], r)
                              else emit [c] (scan_members f (Suc d) (c1 # r))))
         else if c = CHR ''['' then
           (if maxNestingDepth \<le> d then None
            else (case skip_ws cs of
                    [] \<Rightarrow> None
                  | c1 # r \<Rightarrow> if c1 = CHR '']'' then Some ([c, c1], r)
                              else emit [c] (scan_elems f (Suc d) (c1 # r))))
         else if c = CHR 0x22 then emit [c] (scan_string cs)
         else if c = CHR ''-'' \<or> isDigit c then scan_number s
         else if c = CHR ''t'' then scan_lit ''true'' s
         else if c = CHR ''f'' then scan_lit ''false'' s
         else if c = CHR ''n'' then scan_lit ''null'' s
         else None)"
| "scan_elems 0 d s = None"
| "scan_elems (Suc f) d s =
    (case scan_value f d s of
       None \<Rightarrow> None
     | Some (out, r) \<Rightarrow>
         (case skip_ws r of
            [] \<Rightarrow> None
          | c # r1 \<Rightarrow>
              if c = CHR '','' then emit (out @ [c]) (scan_elems f d (skip_ws r1))
              else if c = CHR '']'' then Some (out @ [c], r1)
              else None))"
| "scan_members 0 d s = None"
| "scan_members (Suc f) d s =
    (case s of
       [] \<Rightarrow> None
     | q # cs \<Rightarrow>
         if q \<noteq> CHR 0x22 then None
         else (case scan_string cs of
                 None \<Rightarrow> None
               | Some (k, r) \<Rightarrow>
                   (case skip_ws r of
                      [] \<Rightarrow> None
                    | c1 # r1 \<Rightarrow>
                        if c1 \<noteq> CHR '':'' then None
                        else (case scan_value f d (skip_ws r1) of
                                None \<Rightarrow> None
                              | Some (out, r2) \<Rightarrow>
                                  (case skip_ws r2 of
                                     [] \<Rightarrow> None
                                   | c2 # r3 \<Rightarrow>
                                       if c2 = CHR '','' then
                                         emit (q # k @ c1 # out @ [c2]) (scan_members f d (skip_ws r3))
                                       else if c2 = CHR ''}'' then Some (q # k @ c1 # out @ [c2], r3)
                                       else None)))))"

definition fuel :: "bytes \<Rightarrow> nat" where
  "fuel s = 2 * length s + 2"

definition compact :: "bytes \<Rightarrow> error + bytes" where
  "compact s =
     (case scan_value (fuel s) 0 (skip_ws s) of
        None \<Rightarrow> Inl SyntaxError
      | Some (out, r) \<Rightarrow> if skip_ws r = [] then Inr out else Inl SyntaxError)"

subsection \<open>UTF-8 and the string encoder\<close>

text \<open>
  \<^verbatim>\<open>utf8.DecodeRune\<close> and \<^verbatim>\<open>utf8.EncodeRune\<close>, with runes as natural numbers and the
  masks and shifts of the library written as \<open>mod\<close>, \<open>*\<close> and \<open>div\<close>. A malformed or
  truncated encoding decodes to \<open>(RuneError, 1)\<close>.
\<close>

definition RuneError :: nat where
  "RuneError = 0xFFFD"

definition accept_lo :: "nat \<Rightarrow> nat" where
  "accept_lo b0 = (if b0 = 0xE0 then 0xA0 else if b0 = 0xF0 then 0x90 else 0x80)"

definition accept_hi :: "nat \<Rightarrow> nat" where
  "accept_hi b0 = (if b0 = 0xED then 0x9F else if b0 = 0xF4 then 0x8F else 0xBF)"

definition continuation :: "nat \<Rightarrow> bool" where
  "continuation b = (0x80 \<le> b \<and> b \<le> 0xBF)"

definition DecodeRune :: "bytes \<Rightarrow> nat \<times> nat" where
  "DecodeRune p =
     (case p of
        [] \<Rightarrow> (RuneError, 0)
      | c0 # p1 \<Rightarrow>
          let b0 = of_char c0 :: nat in
          if b0 < 0x80 then (b0, 1)
          else if b0 < 0xC2 \<or> 0xF4 < b0 then (RuneError, 1)
          else
            (case p1 of
               [] \<Rightarrow> (RuneError, 1)
             | c1 # p2 \<Rightarrow>
                 let b1 = of_char c1 :: nat in
                 if b1 < accept_lo b0 \<or> accept_hi b0 < b1 then (RuneError, 1)
                 else if b0 < 0xE0 then ((b0 mod 32) * 64 + b1 mod 64, 2)
                 else
                   (case p2 of
                      [] \<Rightarrow> (RuneError, 1)
                    | c2 # p3 \<Rightarrow>
                        let b2 = of_char c2 :: nat in
                        if \<not> continuation b2 then (RuneError, 1)
                        else if b0 < 0xF0 then
                          ((b0 mod 16) * 4096 + (b1 mod 64) * 64 + b2 mod 64, 3)
                        else
                          (case p3 of
                             [] \<Rightarrow> (RuneError, 1)
                           | c3 # p4 \<Rightarrow>
                               let b3 = of_char c3 :: nat in
                               if \<not> continuation b3 then (RuneError, 1)
                               else ((b0 mod 8) * 262144 + (b1 mod 64) * 4096
                                       + (b2 mod 64) * 64 + b3 mod 64, 4)))))"


text \<open>
  \<^verbatim>\<open>appendString\<close> with HTML escaping, the encoder of string values and of map keys:
  printable ASCII other than the double quote, the backslash, \<open><\<close>, \<open>>\<close>, \<open>&\<close> is copied, other ASCII
  is escaped, every byte that is not part of a well-formed UTF-8 encoding becomes
  the six bytes of the escape of U+FFFD, U+2028 and U+2029 are escaped as well, and all other
  well-formed encodings are copied.
\<close>

definition htmlSafe :: "char \<Rightarrow> bool" where
  "htmlSafe c = (CHR 0x20 \<le> c \<and> c < CHR 0x80 \<and> c \<noteq> CHR 0x22 \<and> c \<noteq> CHR 0x5C
                 \<and> c \<noteq> CHR ''<'' \<and> c \<noteq> CHR ''>'' \<and> c \<noteq> CHR ''&'')"

definition escape_ascii :: "char \<Rightarrow> bytes" where
  "escape_ascii c =
     (if c = CHR 0x5C \<or> c = CHR 0x22 then [CHR 0x5C, c]
      else if c = CHR 0x08 then [CHR 0x5C, CHR ''b'']
      else if c = CHR 0x0C then [CHR 0x5C, CHR ''f'']
      else if c = CHR 0x0A then [CHR 0x5C, CHR ''n'']
      else if c = CHR 0x0D then [CHR 0x5C, CHR ''r'']
      else if c = CHR 0x09 then [CHR 0x5C, CHR ''t'']
      else html_escape c)"

function quote_body :: "bytes \<Rightarrow> bytes" where
  "quote_body [] = []"
| "quote_body (c # cs) =
     (if c < CHR 0x80 then
        (if htmlSafe c then c # quote_body cs else escape_ascii c @ quote_body cs)
      else
        (case DecodeRune (c # cs) of
           (r, n) \<Rightarrow>
             if r = RuneError \<and> n = 1 then
               [CHR 0x5C, CHR ''u'', CHR ''f'', CHR ''f'', CHR ''f'', CHR ''d''] @ quote_body cs
             else if r = 0x2028 \<or> r = 0x2029 then
               [CHR 0x5C, CHR ''u'', CHR ''2'', CHR ''0'', CHR ''2'', hex ! (r mod 16)]
                 @ quote_body (drop (n - 1) cs)
             else c # take (n - 1) cs @ quote_body (drop (n - 1) cs)))"
  by pat_completeness auto
termination
  by (relation "measure length") auto

definition quote :: "bytes \<Rightarrow> bytes" where
  "quote s = CHR 0x22 # quote_body s @ [CHR 0x22]"

subsection \<open>Marshal at \<^verbatim>\<open>map[string]json.RawMessage\<close>\<close>

text \<open>
  A Go map is an association list with distinct keys. \<^verbatim>\<open>Marshal\<close> writes the entries
  in the order of their keys; a \<^verbatim>\<open>RawMessage\<close> is written compacted, a nil one as
  \<open>null\<close>, and one that is not a JSON text makes the whole call fail with a
  \<^verbatim>\<open>MarshalerError\<close>.
\<close>

definition json_Valid :: "bytes \<Rightarrow> bool" where
  "json_Valid s =
     (case scan_value (fuel s) 0 (skip_ws s) of
        None \<Rightarrow> False
      | Some (out, r) \<Rightarrow> skip_ws r = [])"

text \<open>\<^verbatim>\<open>RawMessage.MarshalJSON\<close>: the bytes themselves, or \<open>null\<close> for the nil slice.\<close>

definition MarshalJSON :: "bytes option \<Rightarrow> bytes" where
  "MarshalJSON m = (case m of None \<Rightarrow> ''null'' | Some b \<Rightarrow> b)"

definition encode_entry :: "bytes \<times> bytes option \<Rightarrow> error + bytes" where
  "encode_entry kv =
     (case compact (MarshalJSON (snd kv)) of
        Inl err \<Rightarrow> Inl (MarshalerError err)
      | Inr c \<Rightarrow> Inr (quote (fst kv) @ CHR '':'' # c))"

fun encode_entries :: "(bytes \<times> bytes option) list \<Rightarrow> error + bytes list" where
  "encode_entries [] = Inr []"
| "encode_entries (kv # kvs) =
     (case encode_entry kv of
        Inl err \<Rightarrow> Inl err
      | Inr b \<Rightarrow> (case encode_entries kvs of Inl err \<Rightarrow> Inl err | Inr bs \<Rightarrow> Inr (b # bs)))"

fun join_comma :: "bytes list \<Rightarrow> bytes" where
  "join_comma [] = []"
| "join_comma [b] = b"
| "join_comma (b # bs) = b @ CHR '','' # join_comma bs"

definition json_Marshal_map :: "(bytes \<times> bytes option) list \<Rightarrow> error + bytes" where
  "json_Marshal_map m =
     (case encode_entries (sort_key fst m) of
        Inl err \<Rightarrow> Inl err
      | Inr bs \<Rightarrow> Inr (CHR ''{'' # join_comma bs @ ''}''))"

subsection \<open>The string decoder\<close>






subsection \<open>Unmarshal at \<^verbatim>\<open>map[string]json.RawMessage\<close>\<close>




section \<open>The snapshot serializer\<close>

text \<open>
  \<^verbatim>\<open>DumpJson(ctx, db, writer)\<close>. The writer is its \<^verbatim>\<open>Write\<close> method over the
  writer's state; the number of bytes it reports is ignored by the source.
\<close>

text \<open>The loop \<^verbatim>\<open>for _, kv := range dump { out[string(kv.Key)] = kv.Val }\<close>.\<close>

definition dump_map :: "KV list \<Rightarrow> (bytes \<times> bytes option) list" where
  "dump_map dump = fold (\<lambda>kv out. AList.update (Key kv) (Val kv) out) dump []"

definition DumpJson ::
  "('db, 'tx) DB \<Rightarrow> 'db \<Rightarrow> ('w \<Rightarrow> bytes \<Rightarrow> error option \<times> 'w) \<Rightarrow> 'w \<Rightarrow> error option \<times> 'w" where
  "DumpJson db s Write w =
     (case Dump db s of
        Inl err \<Rightarrow> (Some (Wrapped ''dump db: '' err), w)
      | Inr dump \<Rightarrow>
          (case json_Marshal_map (dump_map dump) of
             Inl err \<Rightarrow> (Some (Wrapped ''marshall dump: '' err), w)
           | Inr data \<Rightarrow>
               (case Write w data of
                  (Some err, w') \<Rightarrow> (Some (Wrapped ''write dump: '' err), w')
                | (None, w') \<Rightarrow> (None, w'))))"

text \<open>A \<^verbatim>\<open>bytes.Buffer\<close> as writer: it appends and never fails.\<close>

definition buffer_Write :: "bytes \<Rightarrow> bytes \<Rightarrow> error option \<times> bytes" where
  "buffer_Write buf p = (None, buf @ p)"



text \<open>What \<open>DumpJson\<close> returns after its call of \<open>Write\<close> returned \<open>r\<close>.\<close>

definition write_result :: "error option \<times> 'w \<Rightarrow> error option \<times> 'w" where
  "write_result r =
     (case r of
        (Some err, w') \<Rightarrow> (Some (Wrapped ''write dump: '' err), w')
      | (None, w') \<Rightarrow> (None, w'))"

definition entry :: "KV \<Rightarrow> bytes \<times> bytes option" where
  "entry kv = (Key kv, Val kv)"

section \<open>Codecs of some Go types\<close>

text \<open>
  \<^verbatim>\<open>json.Marshal\<close> and \<^verbatim>\<open>json.Unmarshal\<close> choose the codec by the static type. The
  codecs of \<^verbatim>\<open>int\<close> and of pointer types \<^verbatim>\<open>*T\<close> follow; they are what \<open>SetJson\<close> and
  \<open>GetJson\<close> receive as \<open>marshal\<close> and \<open>unmarshal\<close> at these types.

  An \<^verbatim>\<open>int\<close> is written in decimal. It is read from a JSON number that
  \<^verbatim>\<open>strconv.ParseInt\<close> accepts in 64 bits; \<open>null\<close> leaves the variable at its zero
  value without error; every other JSON text is an \<^verbatim>\<open>UnmarshalTypeError\<close>.
\<close>

fun dec_digits :: "nat \<Rightarrow> bytes" where
  "dec_digits n = (if n < 10 then [char_of (48 + n)] else dec_digits (n div 10) @ [char_of (48 + n mod 10)])"

definition FormatInt :: "int \<Rightarrow> bytes" where
  "FormatInt i = (if i < 0 then CHR ''-'' # dec_digits (nat (- i)) else dec_digits (nat i))"

definition json_Marshal_int :: "int \<Rightarrow> error + bytes" where
  "json_Marshal_int i = Inr (FormatInt i)"

definition digits_val :: "bytes \<Rightarrow> int" where
  "digits_val ds = foldl (\<lambda>a c. a * 10 + (of_char c - 48)) 0 ds"

definition ParseInt :: "bytes \<Rightarrow> int option" where
  "ParseInt s =
     (let neg = (s \<noteq> [] \<and> hd s = CHR ''-'');
          ds = (if s \<noteq> [] \<and> (hd s = CHR ''-'' \<or> hd s = CHR ''+'') then tl s else s);
          n = (if neg then - digits_val ds else digits_val ds)
      in if ds = [] \<or> \<not> list_all isDigit ds then None
         else if n < - (2 ^ 63) \<or> 2 ^ 63 \<le> n then None
         else Some n)"

definition json_Unmarshal_int :: "bytes \<Rightarrow> error + int" where
  "json_Unmarshal_int data =
     (if \<not> json_Valid data then Inl SyntaxError
      else
        (case skip_ws data of
           [] \<Rightarrow> Inl SyntaxError
         | c # cs \<Rightarrow>
             if c = CHR ''n'' then Inr 0
             else if c = CHR ''-'' \<or> isDigit c then
               (case scan_number (c # cs) of
                  None \<Rightarrow> Inl SyntaxError
                | Some (item, r) \<Rightarrow>
                    (case ParseInt item of
                       None \<Rightarrow> Inl UnmarshalTypeError
                     | Some n \<Rightarrow> Inr n))
             else Inl UnmarshalTypeError))"



section \<open>Auxiliary implementations\<close>

text \<open>
  The closures of the repository's transaction test: one sets the key \<open>key4\<close> to an
  integer and returns nil, the other sets it and then returns an error.
\<close>

definition test_set :: "int \<Rightarrow> txn \<Rightarrow> error option \<times> txn" where
  "test_set n tx = SetJson json_Marshal_int mem_Tx tx ''key4'' n"

definition test_set_then_fail :: "int \<Rightarrow> txn \<Rightarrow> error option \<times> txn" where
  "test_set_then_fail n tx =
     (case SetJson json_Marshal_int mem_Tx tx ''key4'' n of
        (err, tx') \<Rightarrow> (Some (ErrorString ''err after set''), tx'))"


text \<open>A database whose engine is closed: \<open>Do\<close> and \<open>Dump\<close> fail.\<close>

definition failing_DB :: "(store, txn) DB" where
  "failing_DB = \<lparr>Do = (\<lambda>s work. (Some (ErrorString ''closed''), s)),
                 Dump = (\<lambda>s. Inl (ErrorString ''closed'')), TxOps = mem_Tx\<rparr>"

text \<open>A writer that was closed: \<open>Write\<close> fails and writes nothing.\<close>

definition closed_Write :: "bytes \<Rightarrow> bytes \<Rightarrow> error option \<times> bytes" where
  "closed_Write buf p = (Some (ErrorString ''closed''), buf)"

section \<open>Properties of the codec layer\<close>

lemma is_chain_refl: "is_chain e e"
  by (cases e) simp_all

text \<open>
  C9. Whenever the transaction's \<open>Get\<close> fails with an error that matches the sentinel,
  the error \<open>GetJson\<close> returns is that error wrapped under the context text
  \<open>get key: \<close>, it still matches \<open>ErrKeyNotFound\<close> under \<open>errors.Is\<close>, and
  \<open>GetJsonDefault\<close> therefore returns the default.
\<close>

theorem GetJson_wraps_not_found:
  assumes "Get T tx key = Inl e" and "errors_Is (Some e) ErrKeyNotFound"
  shows "GetJson unmarshal T tx key = Inl (Wrapped ''get key: '' e)
         \<and> errors_Is (err_of (GetJson unmarshal T tx key)) ErrKeyNotFound
         \<and> GetJsonDefault unmarshal T tx key d = Inr d"
  using assms by (simp add: GetJson_def GetJsonDefault_def errors_Is_def err_of_def)

theorem GetJson_wraps_not_found_witness:
  "Get mem_Tx (begin_tx []) ''key1'' = Inl ErrKeyNotFound
   \<and> errors_Is (Some ErrKeyNotFound) ErrKeyNotFound
   \<and> GetJson json_Unmarshal_int mem_Tx (begin_tx []) ''key1'' = Inl (Wrapped ''get key: '' ErrKeyNotFound)
   \<and> errors_Is (err_of (GetJson json_Unmarshal_int mem_Tx (begin_tx []) ''key1'')) ErrKeyNotFound
   \<and> GetJsonDefault json_Unmarshal_int mem_Tx (begin_tx []) ''key1'' 0 = Inr 0"
proof -
  have g: "Get mem_Tx (begin_tx []) ''key1'' = Inl ErrKeyNotFound"
    by (simp add: mem_Tx_def mem_Get_def begin_tx_def)
  have i: "errors_Is (Some ErrKeyNotFound) ErrKeyNotFound"
    by (simp add: errors_Is_def)
  show ?thesis
    using g i GetJson_wraps_not_found [OF g i, of json_Unmarshal_int 0] by blast
qed

text \<open>
  C6. \<open>GetJsonDefault\<close> returns the default with no error when \<open>GetJson\<close> fails with an
  error matching the sentinel, and returns exactly what \<open>GetJson\<close> returns in every other
  case: the decoded value of a present key, and every failure that does not match the
  sentinel.
\<close>

theorem GetJsonDefault_spec:
  "GetJsonDefault unmarshal T tx key d =
     (case GetJson unmarshal T tx key of
        Inr v \<Rightarrow> Inr v
      | Inl e \<Rightarrow> if is_chain e ErrKeyNotFound then Inr d else Inl e)"
  by (simp add: GetJsonDefault_def errors_Is_def err_of_def split: sum.splits)

theorem GetJsonDefault_spec_witness:
  "GetJsonDefault json_Unmarshal_int mem_Tx (begin_tx []) ''k'' 0 = Inr 0
   \<and> GetJsonDefault json_Unmarshal_int mem_Tx (begin_tx [(''k'', ''7'')]) ''k'' 0 = Inr 7
   \<and> GetJsonDefault json_Unmarshal_int mem_Tx (begin_tx [(''k'', ''true'')]) ''k'' 0
       = Inl (Wrapped ''unmarshall key val: '' UnmarshalTypeError)"
proof -
  have a: "GetJson json_Unmarshal_int mem_Tx (begin_tx []) ''k'' = Inl (Wrapped ''get key: '' ErrKeyNotFound)"
    by code_simp
  have b: "GetJson json_Unmarshal_int mem_Tx (begin_tx [(''k'', ''7'')]) ''k'' = Inr 7"
    by code_simp
  have c: "GetJson json_Unmarshal_int mem_Tx (begin_tx [(''k'', ''true'')]) ''k''
             = Inl (Wrapped ''unmarshall key val: '' UnmarshalTypeError)"
    by code_simp
  show ?thesis
    using GetJsonDefault_spec [of json_Unmarshal_int mem_Tx "begin_tx []" "''k''" 0]
      GetJsonDefault_spec [of json_Unmarshal_int mem_Tx "begin_tx [(''k'', ''7'')]" "''k''" 0]
      GetJsonDefault_spec [of json_Unmarshal_int mem_Tx "begin_tx [(''k'', ''true'')]" "''k''" 0]
    by (simp add: a b c)
qed

subsection \<open>Missing keys\<close>

lemma map_of_commit: "map_of (commit s ws) = map_of s ++ map_of (rev ws)"
  unfolding commit_def
proof (induction ws arbitrary: s)
  case Nil
  then show ?case by simp
next
  case (Cons w ws)
  obtain k v where w: "w = (k, v)" by (cases w)
  show ?case
    by (rule ext) (simp add: w Cons.IH update_conv' map_add_def split: option.splits)
qed

lemma map_of_store_of_None:
  "\<forall>ws\<in>set h. key \<notin> fst ` set ws \<Longrightarrow> map_of s key = None \<Longrightarrow>
     map_of (fold (\<lambda>ws s. commit s ws) h s) key = None"
proof (induction h arbitrary: s)
  case Nil
  then show ?case by simp
next
  case (Cons ws h)
  have "map_of (commit s ws) key = None"
    using Cons.prems by (simp add: map_of_commit map_add_def map_of_eq_None_iff split: option.splits)
  then show ?case using Cons by simp
qed

text \<open>
  C5. Let the store be the result of any history of committed transactions none of which
  wrote \<open>key\<close>, and let the running transaction not have written it either. Then
  \<open>GetJson\<close> on \<open>key\<close> fails, with the sentinel wrapped under \<open>get key: \<close>; the
  error matches \<open>ErrKeyNotFound\<close> under \<open>errors.Is\<close>; \<open>Get\<close> does not return an
  empty value instead; and the errors of a failed decoding or of a failing engine do not
  match the sentinel.
\<close>

theorem GetJson_missing_key:
  assumes "\<forall>ws\<in>set h. key \<notin> fst ` set ws" and "key \<notin> fst ` set ws0"
  shows "GetJson unmarshal mem_Tx \<lparr>snapshot = store_of h, writes = ws0\<rparr> key
           = Inl (Wrapped ''get key: '' ErrKeyNotFound)
       \<and> errors_Is (err_of (GetJson unmarshal mem_Tx \<lparr>snapshot = store_of h, writes = ws0\<rparr> key))
            ErrKeyNotFound
       \<and> Get mem_Tx \<lparr>snapshot = store_of h, writes = ws0\<rparr> key \<noteq> Inr []
       \<and> \<not> errors_Is (Some (Wrapped ''unmarshall key val: '' SyntaxError)) ErrKeyNotFound
       \<and> \<not> errors_Is (Some (Wrapped ''unmarshall key val: '' UnmarshalTypeError)) ErrKeyNotFound
       \<and> \<not> errors_Is (Some (Wrapped ''get key: '' (ErrorString m))) ErrKeyNotFound"
proof -
  have a: "map_of (store_of h) key = None"
    unfolding store_of_def using assms(1) by (rule map_of_store_of_None) simp
  have b: "map_of (rev ws0) key = None"
    using assms(2) by (simp add: map_of_eq_None_iff)
  have g: "Get mem_Tx \<lparr>snapshot = store_of h, writes = ws0\<rparr> key = Inl ErrKeyNotFound"
    by (simp add: mem_Tx_def mem_Get_def a b)
  show ?thesis
    by (simp add: GetJson_def g errors_Is_def err_of_def)
qed

theorem GetJson_missing_key_witness:
  "''key4'' \<notin> fst ` set [(''key1'', ''55'')]
   \<and> ''key4'' \<notin> fst ` set [(''key2'', ''null''), (''key2'', ''2'')]
   \<and> ''key4'' \<notin> fst ` set [(''key3'', ''1'')]
   \<and> store_of [[(''key1'', ''55'')], [(''key2'', ''null''), (''key2'', ''2'')]]
        = [(''key1'', ''55''), (''key2'', ''2'')]
   \<and> GetJson json_Unmarshal_int mem_Tx
        \<lparr>snapshot = [(''key1'', ''55''), (''key2'', ''2'')], writes = [(''key3'', ''1'')]\<rparr> ''key4''
        = Inl (Wrapped ''get key: '' ErrKeyNotFound)"
proof -
  have a: "\<forall>ws\<in>set [[(''key1'', ''55'')], [(''key2'', ''null''), (''key2'', ''2'')]]. ''key4'' \<notin> fst ` set ws"
    by simp
  have b: "''key4'' \<notin> fst ` set [(''key3'', ''1'')]"
    by simp
  have c: "store_of [[(''key1'', ''55'')], [(''key2'', ''null''), (''key2'', ''2'')]]
        = [(''key1'', ''55''), (''key2'', ''2'')]"
    by (simp add: store_of_def commit_def)
  show ?thesis
    using a b c GetJson_missing_key [OF a b, of json_Unmarshal_int] by simp
qed

subsection \<open>Writing and reading back\<close>





section \<open>Properties of transactions\<close>

text \<open>
  C1. If the closure run by \<open>Do\<close> returns a non-nil error, whatever it has set before,
  then \<open>Do\<close> returns that error and the store is the one before the call. So every
  key reads after it as it read before it: a value the failed closure wrote is not
  visible, a value committed earlier is unchanged, and any later transaction runs as if the
  failed one had not happened.
\<close>

theorem Do_failed_tx_invisible:
  assumes "fst (work (begin_tx s)) = Some e"
  shows "Do mem_DB s work = (Some e, s)
       \<and> GetJson unmarshal mem_Tx (begin_tx (snd (Do mem_DB s work))) key
           = GetJson unmarshal mem_Tx (begin_tx s) key
       \<and> Do mem_DB (snd (Do mem_DB s work)) work2 = Do mem_DB s work2"
proof -
  have "Do mem_DB s work = (Some e, s)"
    using assms by (cases "work (begin_tx s)") (simp add: mem_DB_def mem_Do_def)
  then show ?thesis by simp
qed

theorem Do_failed_tx_invisible_witness:
  "Do mem_DB [] (test_set 80) = (None, [(''key4'', ''80'')])
   \<and> fst (test_set_then_fail 90 (begin_tx [(''key4'', ''80'')])) = Some (ErrorString ''err after set'')
   \<and> writes (snd (test_set_then_fail 90 (begin_tx [(''key4'', ''80'')]))) = [(''key4'', ''90'')]
   \<and> Do mem_DB [(''key4'', ''80'')] (test_set_then_fail 90)
        = (Some (ErrorString ''err after set''), [(''key4'', ''80'')])
   \<and> GetJson json_Unmarshal_int mem_Tx
        (begin_tx (snd (Do mem_DB [(''key4'', ''80'')] (test_set_then_fail 90)))) ''key4'' = Inr 80"
proof -
  have a: "Do mem_DB [] (test_set 80) = (None, [(''key4'', ''80'')])"
    by code_simp
  have b: "fst (test_set_then_fail 90 (begin_tx [(''key4'', ''80'')])) = Some (ErrorString ''err after set'')"
    by code_simp
  have c: "writes (snd (test_set_then_fail 90 (begin_tx [(''key4'', ''80'')]))) = [(''key4'', ''90'')]"
    by code_simp
  have d: "GetJson json_Unmarshal_int mem_Tx (begin_tx [(''key4'', ''80'')]) ''key4'' = Inr 80"
    by code_simp
  show ?thesis
    using Do_failed_tx_invisible [where work = "test_set_then_fail 90" and s = "[(''key4'', ''80'')]"
        and e = "ErrorString ''err after set''" and unmarshal = json_Unmarshal_int
        and key = "''key4''"] a b c d
    by simp
qed

section \<open>Properties of the snapshot serializer\<close>

subsection \<open>What Marshal does with the entries\<close>

lemma compact_error: "compact s = Inl e \<Longrightarrow> e = SyntaxError"
  by (auto simp: compact_def split: option.splits if_splits)

lemma compact_invalid: "\<not> json_Valid s \<Longrightarrow> compact s = Inl SyntaxError"
  by (auto simp: compact_def json_Valid_def split: option.splits)

lemma compact_valid: "compact s = Inr c \<Longrightarrow> json_Valid s"
  by (auto simp: compact_def json_Valid_def split: option.splits if_splits)

lemma encode_entries_invalid:
  assumes "(k, Some b) \<in> set xs" and "\<not> json_Valid b"
  shows "encode_entries xs = Inl (MarshalerError SyntaxError)"
  using assms
proof (induction xs)
  case Nil
  then show ?case by simp
next
  case (Cons x xs)
  show ?case
  proof (cases "x = (k, Some b)")
    case True
    then show ?thesis
      using Cons.prems(2) by (simp add: encode_entry_def MarshalJSON_def compact_invalid)
  next
    case False
    then have "encode_entries xs = Inl (MarshalerError SyntaxError)"
      using Cons by simp
    then show ?thesis
      by (auto simp: encode_entry_def split: sum.splits dest: compact_error)
  qed
qed


lemma update_fresh: "k \<notin> fst ` set al \<Longrightarrow> AList.update k v al = al @ [(k, v)]"
  by (induction al) auto

lemma dump_map_fold:
  "distinct (map Key dump) \<Longrightarrow> \<forall>kv\<in>set dump. Key kv \<notin> fst ` set acc \<Longrightarrow>
   fold (\<lambda>kv out. AList.update (Key kv) (Val kv) out) dump acc = acc @ map entry dump"
proof (induction dump arbitrary: acc)
  case Nil
  then show ?case by simp
next
  case (Cons kv dump)
  have "AList.update (Key kv) (Val kv) acc = acc @ [entry kv]"
    using Cons.prems(2) by (simp add: update_fresh entry_def)
  moreover have "\<forall>x\<in>set dump. Key x \<notin> fst ` set (acc @ [entry kv])"
    using Cons.prems by (auto simp: entry_def image_iff)
  ultimately show ?case
    using Cons.IH [of "acc @ [entry kv]"] Cons.prems(1) by simp
qed

lemma dump_map_distinct: "distinct (map Key dump) \<Longrightarrow> dump_map dump = map entry dump"
  using dump_map_fold [of dump "[]"] by (simp add: dump_map_def)

subsection \<open>DumpJson\<close>

text \<open>
  C10. \<open>DumpJson\<close> calls \<open>Write\<close> at most once, and only after both the dump and
  the marshalling succeeded. If \<open>Dump\<close> fails, the result is its error wrapped and the
  writer as it was. If marshalling fails, the result is that error wrapped and the writer
  as it was; this is the case whenever some dumped value is a byte sequence that is not a
  JSON text. Otherwise the result is that of the single call of \<open>Write\<close> on the
  marshalled document.
\<close>

theorem DumpJson_writes_at_most_once:
  "(\<forall>e. Dump db s = Inl e \<longrightarrow> DumpJson db s W w = (Some (Wrapped ''dump db: '' e), w))
   \<and> (\<forall>dump. Dump db s = Inr dump \<and> distinct (map Key dump)
          \<and> (\<exists>kv\<in>set dump. \<exists>b. Val kv = Some b \<and> \<not> json_Valid b)
        \<longrightarrow> DumpJson db s W w = (Some (Wrapped ''marshall dump: '' (MarshalerError SyntaxError)), w))
   \<and> (\<forall>dump e. Dump db s = Inr dump \<and> json_Marshal_map (dump_map dump) = Inl e
        \<longrightarrow> DumpJson db s W w = (Some (Wrapped ''marshall dump: '' e), w))
   \<and> (\<forall>dump data. Dump db s = Inr dump \<and> json_Marshal_map (dump_map dump) = Inr data
        \<longrightarrow> DumpJson db s W w = write_result (W w data))"
proof (intro conjI allI impI)
  fix e assume "Dump db s = Inl e"
  then show "DumpJson db s W w = (Some (Wrapped ''dump db: '' e), w)"
    by (simp add: DumpJson_def)
next
  fix dump
  assume a: "Dump db s = Inr dump \<and> distinct (map Key dump)
          \<and> (\<exists>kv\<in>set dump. \<exists>b. Val kv = Some b \<and> \<not> json_Valid b)"
  then obtain kv b where kv: "kv \<in> set dump" "Val kv = Some b" "\<not> json_Valid b"
    by blast
  have "(Key kv, Some b) \<in> set (sort_key fst (dump_map dump))"
    using a kv by (force simp: dump_map_distinct entry_def)
  then have "encode_entries (sort_key fst (dump_map dump)) = Inl (MarshalerError SyntaxError)"
    using kv(3) by (rule encode_entries_invalid)
  then show "DumpJson db s W w = (Some (Wrapped ''marshall dump: '' (MarshalerError SyntaxError)), w)"
    using a by (simp add: DumpJson_def json_Marshal_map_def)
next
  fix dump e
  assume "Dump db s = Inr dump \<and> json_Marshal_map (dump_map dump) = Inl e"
  then show "DumpJson db s W w = (Some (Wrapped ''marshall dump: '' e), w)"
    by (simp add: DumpJson_def)
next
  fix dump data
  assume "Dump db s = Inr dump \<and> json_Marshal_map (dump_map dump) = Inr data"
  then show "DumpJson db s W w = write_result (W w data)"
    by (simp add: DumpJson_def write_result_def)
qed

theorem DumpJson_writes_at_most_once_witness:
  \<open>Dump failing_DB [] = Inl (ErrorString ''closed'')
   \<and> DumpJson failing_DB [] buffer_Write ''0123'' = (Some (Wrapped ''dump db: '' (ErrorString ''closed'')), ''0123'')
   \<and> Dump mem_DB [(''a'', ''1''), (''k'', ''{"x":'')]
        = Inr [\<lparr>Key = ''a'', Val = Some ''1''\<rparr>, \<lparr>Key = ''k'', Val = Some ''{"x":''\<rparr>]
   \<and> \<not> json_Valid ''{"x":''
   \<and> DumpJson mem_DB [(''a'', ''1''), (''k'', ''{"x":'')] buffer_Write ''0123''
        = (Some (Wrapped ''marshall dump: '' (MarshalerError SyntaxError)), ''0123'')
   \<and> json_Marshal_map (dump_map [\<lparr>Key = ''a'', Val = Some ''1''\<rparr>]) = Inr ''{"a":1}''
   \<and> DumpJson mem_DB [(''a'', ''1'')] buffer_Write ''0123'' = (None, ''0123{"a":1}'')
   \<and> DumpJson mem_DB [(''a'', ''1'')] closed_Write ''0123''
        = (Some (Wrapped ''write dump: '' (ErrorString ''closed'')), ''0123'')\<close>
proof -
  have d0: "Dump failing_DB [] = Inl (ErrorString ''closed'')"
    by (simp add: failing_DB_def)
  have d1: \<open>Dump mem_DB [(''a'', ''1''), (''k'', ''{"x":'')]
        = Inr [\<lparr>Key = ''a'', Val = Some ''1''\<rparr>, \<lparr>Key = ''k'', Val = Some ''{"x":''\<rparr>]\<close>
    by (simp add: mem_DB_def mem_Dump_def)
  have d2: "Dump mem_DB [(''a'', ''1'')] = Inr [\<lparr>Key = ''a'', Val = Some ''1''\<rparr>]"
    by (simp add: mem_DB_def mem_Dump_def)
  have v: \<open>\<not> json_Valid ''{"x":''\<close>
    by code_simp
  have m: \<open>json_Marshal_map (dump_map [\<lparr>Key = ''a'', Val = Some ''1''\<rparr>]) = Inr ''{"a":1}''\<close>
    by code_simp
  have r0: "DumpJson failing_DB [] buffer_Write ''0123''
              = (Some (Wrapped ''dump db: '' (ErrorString ''closed'')), ''0123'')"
    using DumpJson_writes_at_most_once [of failing_DB "[]" buffer_Write "''0123''"] d0 by simp
  have r1: \<open>DumpJson mem_DB [(''a'', ''1''), (''k'', ''{"x":'')] buffer_Write ''0123''
        = (Some (Wrapped ''marshall dump: '' (MarshalerError SyntaxError)), ''0123'')\<close>
    using DumpJson_writes_at_most_once
      [of mem_DB \<open>[(''a'', ''1''), (''k'', ''{"x":'')]\<close> buffer_Write "''0123''"] d1 v
    by simp
  have r2: \<open>DumpJson mem_DB [(''a'', ''1'')] buffer_Write ''0123'' = (None, ''0123{"a":1}'')\<close>
    using DumpJson_writes_at_most_once [of mem_DB "[(''a'', ''1'')]" buffer_Write "''0123''"] d2 m
    by (simp add: write_result_def buffer_Write_def)
  have r3: "DumpJson mem_DB [(''a'', ''1'')] closed_Write ''0123''
        = (Some (Wrapped ''write dump: '' (ErrorString ''closed'')), ''0123'')"
    using DumpJson_writes_at_most_once [of mem_DB "[(''a'', ''1'')]" closed_Write "''0123''"] d2 m
    by (simp add: write_result_def closed_Write_def)
  show ?thesis
    using d0 d1 v m r0 r1 r2 r3 by simp
qed




subsection \<open>RestoreJson\<close>




end
